theory Spec2Isabelle
  imports Main "HOL-Library.AList" "HOL-Library.Sublist"
begin

section \<open>The policy base classes of maml_zoo/policies/base.py\<close>

text \<open>
  The module defines two classes, \<open>Policy\<close> and its subclass \<open>MetaPolicy\<close>. An instance
  is a record of its attributes; a method takes the instance and returns the outcome of
  the call together with the instance as the call leaves it. An outcome is a sum: \<open>Inl\<close>
  is the exception raised, \<open>Inr\<close> the value returned.
\<close>

subsection \<open>Python values and exceptions\<close>

datatype error = NotImplementedError | AssertionError | AttributeError | OtherError string

type_synonym 'a result = "error + 'a"

text \<open>The untyped arguments of the methods (observations, paths, parameter lists, ...).\<close>

datatype pyval =
  PyNone
  | PyBool bool
  | PyInt int
  | PyStr string
  | PyList "pyval list"
  | PyTuple "pyval list"
  | PyDict "(string \<times> pyval) list"

subsection \<open>TensorFlow objects\<close>

datatype dtype = Float32 | Float64 | Int32

text \<open>A \<open>tf.Variable\<close>: its identity in the graph, its name, dtype and shape.\<close>

record tf_variable =
  var_id :: nat
  var_name :: string
  var_dtype :: dtype
  var_shape :: "nat list"

text \<open>A \<open>tf.placeholder(dtype, shape=...)\<close>.\<close>

datatype placeholder = Placeholder dtype "nat list"

subsection \<open>Instances\<close>

text \<open>
  \<open>Policy.__init__\<close> stores what \<open>Serializable.quick_init\<close> records of the constructor
  arguments and sets \<open>param_assign_ops\<close> and \<open>param_assign_placeholders\<close> to \<open>None\<close>. It
  never sets \<open>policy_params\<close>: the attribute exists only once a subclass has built its
  graph, so it is an option here, \<open>None\<close> meaning that the attribute is absent.
  \<open>MetaPolicy.__init__\<close> adds \<open>_pre_update_mode\<close> and \<open>policies_params_vals\<close>.
\<close>

record 'a policy =
  serializable :: 'a
  param_assign_ops :: pyval
  param_assign_placeholders :: pyval
  policy_params :: "(string \<times> tf_variable) list option"

record 'a meta_policy = "'a policy" +
  pre_update_mode :: bool
  policies_params_vals :: pyval

text \<open>
  \<open>Serializable.quick_init\<close> lives outside this module; \<open>quick_init\<close> is what it keeps of
  \<open>locals()\<close>.
\<close>

definition Policy_init :: "('l \<Rightarrow> 'a) \<Rightarrow> 'l \<Rightarrow> 'a policy" where
  "Policy_init quick_init locals =
     \<lparr> serializable = quick_init locals,
       param_assign_ops = PyNone,
       param_assign_placeholders = PyNone,
       policy_params = None \<rparr>"

definition MetaPolicy_init :: "('l \<Rightarrow> 'a) \<Rightarrow> 'l \<Rightarrow> 'a meta_policy" where
  "MetaPolicy_init quick_init locals =
     policy.extend (Policy_init quick_init locals)
       (meta_policy.fields True PyNone)"

subsection \<open>Methods of Policy\<close>

definition Policy_build_graph ::
  "('a, 'z) policy_scheme \<Rightarrow> pyval result \<times> ('a, 'z) policy_scheme" where
  "Policy_build_graph self = (Inl NotImplementedError, self)"

definition get_action ::
  "('a, 'z) policy_scheme \<Rightarrow> pyval \<Rightarrow> pyval result \<times> ('a, 'z) policy_scheme" where
  "get_action self observation = (Inl NotImplementedError, self)"

definition Policy_get_actions ::
  "('a, 'z) policy_scheme \<Rightarrow> pyval \<Rightarrow> pyval result \<times> ('a, 'z) policy_scheme" where
  "Policy_get_actions self observations = (Inl NotImplementedError, self)"

definition reset ::
  "('a, 'z) policy_scheme \<Rightarrow> pyval \<Rightarrow> pyval result \<times> ('a, 'z) policy_scheme" where
  "reset self dones = (Inr PyNone, self)"

definition log_diagnostics ::
  "('a, 'z) policy_scheme \<Rightarrow> pyval \<Rightarrow> pyval result \<times> ('a, 'z) policy_scheme" where
  "log_diagnostics self paths = (Inr PyNone, self)"

definition distribution ::
  "('a, 'z) policy_scheme \<Rightarrow> pyval result \<times> ('a, 'z) policy_scheme" where
  "distribution self = (Inl NotImplementedError, self)"

definition distribution_info_sym ::
  "('a, 'z) policy_scheme \<Rightarrow> pyval \<Rightarrow> pyval \<Rightarrow> pyval result \<times> ('a, 'z) policy_scheme" where
  "distribution_info_sym self obs_var params = (Inl NotImplementedError, self)"

definition distribution_info_keys ::
  "('a, 'z) policy_scheme \<Rightarrow> pyval \<Rightarrow> pyval \<Rightarrow> pyval result \<times> ('a, 'z) policy_scheme" where
  "distribution_info_keys self obs state_infos = (Inl NotImplementedError, self)"

subsection \<open>Methods of MetaPolicy\<close>

definition MetaPolicy_build_graph ::
  "('a, 'z) meta_policy_scheme \<Rightarrow> pyval result \<times> ('a, 'z) meta_policy_scheme" where
  "MetaPolicy_build_graph self = (Inl NotImplementedError, self)"

definition switch_to_pre_update ::
  "('a, 'z) meta_policy_scheme \<Rightarrow> pyval result \<times> ('a, 'z) meta_policy_scheme" where
  "switch_to_pre_update self =
     (Inr PyNone, self\<lparr>pre_update_mode := True, policies_params_vals := PyNone\<rparr>)"

definition get_pre_update_actions ::
  "('a, 'z) meta_policy_scheme \<Rightarrow> pyval \<Rightarrow> pyval result \<times> ('a, 'z) meta_policy_scheme" where
  "get_pre_update_actions self observations = (Inl NotImplementedError, self)"

definition get_post_update_actions ::
  "('a, 'z) meta_policy_scheme \<Rightarrow> pyval \<Rightarrow> pyval result \<times> ('a, 'z) meta_policy_scheme" where
  "get_post_update_actions self observations = (Inl NotImplementedError, self)"

text \<open>
  \<open>MetaPolicy.get_actions\<close> calls \<open>self._get_pre_update_actions\<close> or
  \<open>self._get_post_update_actions\<close>, which a subclass may override: the two helpers the
  instance's class resolves to are arguments. \<open>MetaPolicy_get_actions\<close> is the method on
  an instance of \<open>MetaPolicy\<close> itself, where both resolve to the stubs above.
\<close>

definition get_actions_via ::
  "(('a, 'z) meta_policy_scheme \<Rightarrow> pyval \<Rightarrow> 'r result \<times> ('a, 'z) meta_policy_scheme) \<Rightarrow>
   (('a, 'z) meta_policy_scheme \<Rightarrow> pyval \<Rightarrow> 'r result \<times> ('a, 'z) meta_policy_scheme) \<Rightarrow>
   ('a, 'z) meta_policy_scheme \<Rightarrow> pyval \<Rightarrow> 'r result \<times> ('a, 'z) meta_policy_scheme" where
  "get_actions_via pre_helper post_helper self observations =
     (if pre_update_mode self then pre_helper self observations
      else post_helper self observations)"

definition MetaPolicy_get_actions ::
  "('a, 'z) meta_policy_scheme \<Rightarrow> pyval \<Rightarrow> pyval result \<times> ('a, 'z) meta_policy_scheme" where
  "MetaPolicy_get_actions =
     get_actions_via get_pre_update_actions get_post_update_actions"

definition update_task_parameters ::
  "('a, 'z) meta_policy_scheme \<Rightarrow> pyval \<Rightarrow> pyval result \<times> ('a, 'z) meta_policy_scheme" where
  "update_task_parameters self updated_policies_parameters =
     (Inr PyNone,
      self\<lparr>policies_params_vals := updated_policies_parameters, pre_update_mode := False\<rparr>)"

subsection \<open>Sequences of mode switches\<close>

text \<open>
  The two methods that write the mode attributes, as calls, and the instance a sequence
  of such calls leaves behind.
\<close>

datatype mode_call = Switch_to_pre_update | Update_task_parameters pyval

fun do_call ::
  "mode_call \<Rightarrow> ('a, 'z) meta_policy_scheme \<Rightarrow> ('a, 'z) meta_policy_scheme" where
  "do_call Switch_to_pre_update self = snd (switch_to_pre_update self)"
| "do_call (Update_task_parameters p) self = snd (update_task_parameters self p)"

definition do_calls ::
  "mode_call list \<Rightarrow> ('a, 'z) meta_policy_scheme \<Rightarrow> ('a, 'z) meta_policy_scheme" where
  "do_calls cs self = fold do_call cs self"

fun arg_not_None :: "mode_call \<Rightarrow> bool" where
  "arg_not_None Switch_to_pre_update = True"
| "arg_not_None (Update_task_parameters p) = (p \<noteq> PyNone)"

definition mode_invariant :: "('a, 'z) meta_policy_scheme \<Rightarrow> bool" where
  "mode_invariant self = (pre_update_mode self = (policies_params_vals self = PyNone))"

subsection \<open>The default session\<close>

text \<open>
  What the module uses of TensorFlow's state: \<open>tf.get_default_session()\<close> is \<open>None\<close> or
  a session, which holds a value for every variable (by \<open>var_id\<close>); the graph knows its
  global variables and the value that \<open>tf.global_variables_initializer()\<close> gives each.
  Errors raised inside TensorFlow (an uninitialised variable, a value of the wrong
  shape) are not modelled; calling \<open>.run\<close> on the \<open>None\<close> that
  \<open>tf.get_default_session()\<close> returns without a default session is.
\<close>

record 'v tf_world =
  default_session :: "(nat \<Rightarrow> 'v) option"
  global_variables :: "nat list"
  initial_value :: "nat \<Rightarrow> 'v"

text \<open>
  \<open>session.run(assign_ops, feed_dict)\<close>: every variable of an op takes the value fed to
  it. The placeholder of an op has the dtype of its variable; the conversion that
  TensorFlow applies to a fed value of another dtype is not modelled, a fed value stands
  for the value as converted.
\<close>

definition run_assign :: "(nat \<Rightarrow> 'v) \<Rightarrow> (tf_variable \<times> 'v) list \<Rightarrow> (nat \<Rightarrow> 'v)" where
  "run_assign sess assign_ops = fold (\<lambda>(var, x) s. s(var_id var := x)) assign_ops sess"

text \<open>\<open>session.run(tf.global_variables_initializer())\<close>.\<close>

definition run_initializer :: "'v tf_world \<Rightarrow> (nat \<Rightarrow> 'v) \<Rightarrow> (nat \<Rightarrow> 'v)" where
  "run_initializer w sess = fold (\<lambda>i s. s(i := initial_value w i)) (global_variables w) sess"

subsection \<open>Serialization methods of Policy\<close>

definition get_params :: "('a, 'z) policy_scheme \<Rightarrow> (string \<times> tf_variable) list result" where
  "get_params self =
     (case policy_params self of None \<Rightarrow> Inl AttributeError | Some ps \<Rightarrow> Inr ps)"

text \<open>
  \<open>tf.get_default_session().run(self.policy_params)\<close>: the session is looked up first,
  then the attribute; the run returns a dict with the keys of the one fetched, in their
  order.
\<close>

definition get_param_values ::
  "('a, 'z) policy_scheme \<Rightarrow> 'v tf_world \<Rightarrow> (string \<times> 'v) list result" where
  "get_param_values self w =
     (case default_session w of
        None \<Rightarrow> Inl AttributeError
      | Some sess \<Rightarrow>
          (case policy_params self of
             None \<Rightarrow> Inl AttributeError
           | Some ps \<Rightarrow> Inr (map (\<lambda>(k, var). (k, sess (var_id var))) ps)))"

text \<open>
  \<open>set_params\<close>: the assertion over the zipped keys, then one assign op per pair of the
  zip of the variables with the given items, each fed the item's value (the placeholder
  of an op is new, so the feed dict gives each op its own value), then the run in the
  default session. The instance is not written; the world is returned.
\<close>

definition set_params ::
  "('a, 'z) policy_scheme \<Rightarrow> (string \<times> 'v) list \<Rightarrow> 'v tf_world \<Rightarrow> pyval result \<times> 'v tf_world" where
  "set_params self policy_params_arg w =
     (case get_params self of
        Inl e \<Rightarrow> (Inl e, w)
      | Inr ps \<Rightarrow>
          if \<not> list_all (\<lambda>(k1, k2). k1 = k2) (zip (map fst ps) (map fst policy_params_arg))
          then (Inl AssertionError, w)
          else
            (let assign_ops =
                   map (\<lambda>(var, (param_name, var_value)). (var, var_value))
                     (zip (map snd ps) policy_params_arg)
             in case default_session w of
                  None \<Rightarrow> (Inl AttributeError, w)
                | Some sess \<Rightarrow>
                    (Inr PyNone, w\<lparr>default_session := Some (run_assign sess assign_ops)\<rparr>)))"

text \<open>The dict \<open>__getstate__\<close> returns and \<open>__setstate__\<close> reads.\<close>

record ('d, 'v) pickled =
  init_args :: 'd
  network_params :: "(string \<times> 'v) list"

text \<open>
  \<open>Serializable.__getstate__\<close> and \<open>Serializable.__setstate__\<close> live outside this
  module and are arguments: the first gives the serialized constructor arguments of an
  instance, the second rebuilds the instance from them (it may write the instance and
  the graph, and may raise).
\<close>

definition Policy_getstate ::
  "(('a, 'z) policy_scheme \<Rightarrow> 'd) \<Rightarrow> ('a, 'z) policy_scheme \<Rightarrow> 'v tf_world \<Rightarrow>
   ('d, 'v) pickled result" where
  "Policy_getstate Serializable_getstate self w =
     (case get_param_values self w of
        Inl e \<Rightarrow> Inl e
      | Inr vals \<Rightarrow> Inr \<lparr> init_args = Serializable_getstate self, network_params = vals \<rparr>)"

definition Policy_setstate ::
  "('d \<Rightarrow> ('a, 'z) policy_scheme \<Rightarrow> 'v tf_world \<Rightarrow>
      pyval result \<times> ('a, 'z) policy_scheme \<times> 'v tf_world) \<Rightarrow>
   ('a, 'z) policy_scheme \<Rightarrow> ('d, 'v) pickled \<Rightarrow> 'v tf_world \<Rightarrow>
   pyval result \<times> ('a, 'z) policy_scheme \<times> 'v tf_world" where
  "Policy_setstate Serializable_setstate self state w =
     (case Serializable_setstate (init_args state) self w of
        (Inl e, self1, w1) \<Rightarrow> (Inl e, self1, w1)
      | (Inr _, self1, w1) \<Rightarrow>
          (case default_session w1 of
             None \<Rightarrow> (Inl AttributeError, self1, w1)
           | Some sess \<Rightarrow>
               (case set_params self1 (network_params state)
                       (w1\<lparr>default_session := Some (run_initializer w1 sess)\<rparr>) of
                  (r, w2) \<Rightarrow> (r, self1, w2))))"

subsection \<open>Placeholders for the variables of a scope\<close>

text \<open>\<open>isinstance(scopes, list) or isinstance(scopes, tuple)\<close>, and the elements iterated.\<close>

fun is_list_or_tuple :: "pyval \<Rightarrow> bool" where
  "is_list_or_tuple (PyList xs) = True"
| "is_list_or_tuple (PyTuple xs) = True"
| "is_list_or_tuple v = False"

fun elements :: "pyval \<Rightarrow> pyval list" where
  "elements (PyList xs) = xs"
| "elements (PyTuple xs) = xs"
| "elements v = []"

text \<open>
  \<open>OrderedDict(pairs)\<close>: a key keeps the place of its first occurrence and the value of
  its last.
\<close>

definition OrderedDict :: "('k \<times> 'v) list \<Rightarrow> ('k \<times> 'v) list" where
  "OrderedDict pairs = fold (\<lambda>(k, v) d. AList.update k v d) pairs []"

text \<open>
  \<open>tf.get_collection\<close> belongs to TensorFlow and \<open>remove_scope_from_name\<close> to
  \<open>maml_zoo.utils.utils\<close>; both are arguments. \<open>range(meta_batch_size)\<close> is the integers
  from \<open>0\<close> to \<open>meta_batch_size - 1\<close>.
\<close>

definition create_placeholders_for_vars ::
  "('g \<Rightarrow> pyval \<Rightarrow> tf_variable list) \<Rightarrow> (string \<Rightarrow> pyval \<Rightarrow> string) \<Rightarrow>
   ('a, 'z) meta_policy_scheme \<Rightarrow> pyval \<Rightarrow> int \<Rightarrow> 'g \<Rightarrow>
   (string \<times> placeholder) list list list result" where
  "create_placeholders_for_vars get_collection remove_scope_from_name self scopes
       meta_batch_size graph_keys =
     (if \<not> is_list_or_tuple scopes then Inl AssertionError
      else Inr
        (map (\<lambda>scope.
            (let var_list = get_collection graph_keys scope
             in map (\<lambda>_. OrderedDict
                      (map (\<lambda>var. (remove_scope_from_name (var_name var) scope,
                                    Placeholder Float32 (var_shape var)))
                         var_list))
                  [0..meta_batch_size - 1]))
           (elements scopes)))"

subsection \<open>Concrete instances\<close>

text \<open>
  Two variables as a subclass's \<open>build_graph\<close> would create them under the scope
  \<open>policy\<close>, an instance whose \<open>policy_params\<close> holds them, and worlds with a default
  session. Integers stand for the arrays a session holds.
\<close>

definition w_var :: tf_variable where
  "w_var = \<lparr> var_id = 0, var_name = ''policy/w:0'', var_dtype = Float32, var_shape = [3, 2] \<rparr>"

definition b_var :: tf_variable where
  "b_var = \<lparr> var_id = 1, var_name = ''policy/b:0'', var_dtype = Float32, var_shape = [2] \<rparr>"

definition built_policy :: "(int \<times> int) policy" where
  "built_policy =
     (Policy_init (\<lambda>l. l) (3, 2))\<lparr>policy_params := Some [(''w'', w_var), (''b'', b_var)]\<rparr>"

definition zero_world :: "int tf_world" where
  "zero_world =
     \<lparr> default_session = Some (\<lambda>i. 0), global_variables = [0, 1], initial_value = (\<lambda>i. 0) \<rparr>"

definition trained_world :: "int tf_world" where
  "trained_world =
     \<lparr> default_session = Some (\<lambda>i. if i = 0 then 7 else 9), global_variables = [0, 1],
       initial_value = (\<lambda>i. 0) \<rparr>"

text \<open>
  A collection with the two variables under the scope \<open>policy\<close>, and a function to
  stand for \<open>remove_scope_from_name\<close>: from a name that begins with the scope it drops
  the scope and the slash after it, and keeps what stands before the colon
  (\<open>policy/w:0\<close> gives \<open>w\<close>).
\<close>

definition policy_collection :: "unit \<Rightarrow> pyval \<Rightarrow> tf_variable list" where
  "policy_collection graph_keys scope = (if scope = PyStr ''policy'' then [w_var, b_var] else [])"

definition drop_scope :: "string \<Rightarrow> pyval \<Rightarrow> string" where
  "drop_scope name scope =
     (case scope of
        PyStr s \<Rightarrow>
          (let rest = drop (length s) name;
               rest = (case rest of c # r \<Rightarrow> if c = CHR ''/'' then r else rest | [] \<Rightarrow> rest)
           in takeWhile (\<lambda>c. c \<noteq> CHR '':'') rest)
      | _ \<Rightarrow> name)"

text \<open>
  A collection in which two entries have the same stripped name \<open>x\<close>, with the shapes
  \<open>[1]\<close> and \<open>[2]\<close>, and an entry \<open>y\<close> of shape \<open>[5]\<close> between them.
\<close>

definition shared_name_collection :: "unit \<Rightarrow> pyval \<Rightarrow> tf_variable list" where
  "shared_name_collection graph_keys scope =
     [\<lparr> var_id = 2, var_name = ''policy/x:0'', var_dtype = Float32, var_shape = [1] \<rparr>,
      \<lparr> var_id = 3, var_name = ''policy/y:0'', var_dtype = Float32, var_shape = [5] \<rparr>,
      \<lparr> var_id = 4, var_name = ''policy/x:1'', var_dtype = Float32, var_shape = [2] \<rparr>]"

text \<open>
  A \<open>Serializable.__setstate__\<close> that builds the instance anew from the constructor
  arguments, as a subclass with the two variables does.
\<close>

definition rebuild ::
  "(int \<times> int) \<Rightarrow> (int \<times> int) policy \<Rightarrow> int tf_world \<Rightarrow>
   pyval result \<times> (int \<times> int) policy \<times> int tf_world" where
  "rebuild args self w =
     (Inr PyNone,
      (Policy_init (\<lambda>l. l) args)\<lparr>policy_params := Some [(''w'', w_var), (''b'', b_var)]\<rparr>,
      w)"

section \<open>Auxiliary lemmas\<close>

subsection \<open>The mode invariant\<close>

lemma mode_invariant_do_call:
  assumes "mode_invariant self" and "arg_not_None c"
  shows "mode_invariant (do_call c self)"
  using assms
  by (cases c) (simp_all add: mode_invariant_def switch_to_pre_update_def
      update_task_parameters_def)

lemma mode_invariant_fold:
  assumes "mode_invariant self" and "list_all arg_not_None cs"
  shows "mode_invariant (fold do_call cs self)"
  using assms
proof (induction cs arbitrary: self)
  case Nil
  then show ?case by simp
next
  case (Cons c cs)
  from Cons.prems have "mode_invariant (do_call c self)"
    by (simp add: mode_invariant_do_call)
  with Cons show ?case by simp
qed

lemma mode_invariant_init: "mode_invariant (MetaPolicy_init quick_init locals)"
  by (simp add: mode_invariant_def MetaPolicy_init_def Policy_init_def
      policy.defs meta_policy.defs)

subsection \<open>The key check and the assign ops of set_params\<close>

lemma keys_check_iff:
  "list_all (\<lambda>(k1, k2). k1 = k2) (zip xs ys) = (\<forall>i < min (length xs) (length ys). xs ! i = ys ! i)"
  by (auto simp: list_all_iff set_zip)


lemma equal_keys_agree:
  assumes "map fst ps = map fst pp"
  shows "list_all (\<lambda>(k1, k2). k1 = k2) (zip (map fst ps) (map fst pp))"
  using assms by (simp add: keys_check_iff)

lemma run_assign_other:
  "i \<notin> var_id ` fst ` set ops \<Longrightarrow> run_assign sess ops i = sess i"
  unfolding run_assign_def
  by (induction ops arbitrary: sess) (auto split: prod.splits)

lemma run_assign_Cons:
  "run_assign sess ((var, x) # ops) = run_assign (sess(var_id var := x)) ops"
  by (simp add: run_assign_def)

lemma run_assign_distinct:
  "distinct (map (\<lambda>a. var_id (fst a)) ops) \<Longrightarrow> (var, x) \<in> set ops \<Longrightarrow>
   run_assign sess ops (var_id var) = x"
proof (induction ops arbitrary: sess)
  case Nil
  then show ?case by simp
next
  case (Cons a ops)
  obtain var' x' where a: "a = (var', x')" by (cases a)
  show ?case
  proof (cases "(var, x) = a")
    case True
    with Cons.prems have "var_id var \<notin> var_id ` fst ` set ops" by (auto simp: image_iff)
    from run_assign_other [OF this] True show ?thesis
      by (simp add: a run_assign_Cons)
  next
    case False
    with Cons.prems have "(var, x) \<in> set ops" and "distinct (map (\<lambda>a. var_id (fst a)) ops)"
      by simp_all
    from Cons.IH [OF this(2) this(1)] show ?thesis
      by (simp add: a run_assign_Cons)
  qed
qed

lemma assign_ops_nth:
  assumes "i < min (length ps) (length pp)"
  shows "(snd (ps ! i), snd (pp ! i))
    \<in> set (map (\<lambda>(var, (param_name, var_value)). (var, var_value)) (zip (map snd ps) pp))"
proof -
  from assms have "(snd (ps ! i), pp ! i) \<in> set (zip (map snd ps) pp)"
    by (auto simp: set_zip intro!: exI [of _ i])
  then have "(\<lambda>(var, (param_name, var_value)). (var, var_value)) (snd (ps ! i), pp ! i)
    \<in> set (map (\<lambda>(var, (param_name, var_value)). (var, var_value)) (zip (map snd ps) pp))"
    by (simp only: set_map) (rule imageI)
  then show ?thesis by (simp add: case_prod_beta)
qed

lemma assign_ops_vars:
  "map fst (map (\<lambda>(var, (param_name, var_value)). (var, var_value)) (zip (map snd ps) pp))
   = take (length pp) (map snd ps)"
proof -
  have "map fst (map (\<lambda>(var, (param_name, var_value)). (var, var_value)) (zip (map snd ps) pp))
    = map fst (zip (map snd ps) pp)"
    by (simp add: case_prod_beta comp_def)
  also have "\<dots> = take (length pp) (map snd ps)"
    by (cases "length ps \<le> length pp") (simp_all add: map_fst_zip_take min_def)
  finally show ?thesis .
qed


lemma assigned_inside:
  assumes "distinct (map (\<lambda>p. var_id (snd p)) ps)" and "i < min (length ps) (length pp)"
  shows "run_assign sess
      (map (\<lambda>(var, (param_name, var_value)). (var, var_value)) (zip (map snd ps) pp))
      (var_id (snd (ps ! i)))
    = snd (pp ! i)"
proof -
  have "map (\<lambda>a. var_id (fst a))
        (map (\<lambda>(var, (param_name, var_value)). (var, var_value)) (zip (map snd ps) pp))
      = map var_id (take (length pp) (map snd ps))"
    by (simp only: map_map [symmetric, unfolded comp_def] assign_ops_vars)
  also have "\<dots> = take (length pp) (map (\<lambda>p. var_id (snd p)) ps)"
    by (simp add: take_map)
  finally have "distinct (map (\<lambda>a. var_id (fst a))
        (map (\<lambda>(var, (param_name, var_value)). (var, var_value)) (zip (map snd ps) pp)))"
    using assms(1) by (simp add: distinct_take)
  from run_assign_distinct [OF this assign_ops_nth [OF assms(2)]] show ?thesis .
qed

lemma read_back:
  assumes keys: "map fst ps = map fst pp"
    and dist: "distinct (map (\<lambda>p. var_id (snd p)) ps)"
  shows "map (\<lambda>(k, var). (k, run_assign sess
        (map (\<lambda>(var, (param_name, var_value)). (var, var_value)) (zip (map snd ps) pp))
        (var_id var))) ps = pp"
proof (rule nth_equalityI)
  from keys have len: "length ps = length pp"
    by (rule map_eq_imp_length_eq)
  then show "length (map (\<lambda>(k, var). (k, run_assign sess
        (map (\<lambda>(var, (param_name, var_value)). (var, var_value)) (zip (map snd ps) pp))
        (var_id var))) ps) = length pp"
    by simp
  fix i
  assume "i < length (map (\<lambda>(k, var). (k, run_assign sess
        (map (\<lambda>(var, (param_name, var_value)). (var, var_value)) (zip (map snd ps) pp))
        (var_id var))) ps)"
  then have i: "i < length ps" by simp
  with len have i': "i < min (length ps) (length pp)" by simp
  from i len have "fst (ps ! i) = map fst ps ! i" and "fst (pp ! i) = map fst pp ! i"
    by simp_all
  with keys have k: "fst (ps ! i) = fst (pp ! i)" by simp
  from assigned_inside [OF dist i', of sess] k i
  show "map (\<lambda>(k, var). (k, run_assign sess
        (map (\<lambda>(var, (param_name, var_value)). (var, var_value)) (zip (map snd ps) pp))
        (var_id var))) ps ! i = pp ! i"
    by (simp add: case_prod_beta prod_eq_iff)
qed

lemma set_params_mismatch:
  assumes "policy_params self = Some ps"
    and "\<not> list_all (\<lambda>(k1, k2). k1 = k2) (zip (map fst ps) (map fst pp))"
  shows "set_params self pp w = (Inl AssertionError, w)"
  using assms by (simp add: set_params_def get_params_def)

lemma set_params_no_session:
  assumes "policy_params self = Some ps"
    and "list_all (\<lambda>(k1, k2). k1 = k2) (zip (map fst ps) (map fst pp))"
    and "default_session w = None"
  shows "set_params self pp w = (Inl AttributeError, w)"
  using assms by (simp add: set_params_def get_params_def)

lemma set_params_run:
  assumes "policy_params self = Some ps"
    and "list_all (\<lambda>(k1, k2). k1 = k2) (zip (map fst ps) (map fst pp))"
    and "default_session w = Some sess"
  shows "set_params self pp w =
    (Inr PyNone,
     w\<lparr>default_session :=
         Some (run_assign sess
           (map (\<lambda>(var, (param_name, var_value)). (var, var_value)) (zip (map snd ps) pp)))\<rparr>)"
  using assms by (simp add: set_params_def get_params_def)

lemma set_params_assertion_iff:
  assumes "policy_params self = Some ps"
  shows "(fst (set_params self pp w) = Inl AssertionError)
    = (\<exists>i < min (length ps) (length pp). fst (ps ! i) \<noteq> fst (pp ! i))"
proof (cases "list_all (\<lambda>(k1, k2). k1 = k2) (zip (map fst ps) (map fst pp))")
  case True
  then have agree: "\<not> (\<exists>i < min (length ps) (length pp). fst (ps ! i) \<noteq> fst (pp ! i))"
    by (auto simp: keys_check_iff)
  have "fst (set_params self pp w) \<noteq> Inl AssertionError"
  proof (cases "default_session w")
    case None
    from set_params_no_session [OF assms True None] show ?thesis by simp
  next
    case (Some sess)
    from set_params_run [OF assms True Some] show ?thesis by simp
  qed
  with agree show ?thesis by blast
next
  case False
  then have "\<exists>i < min (length ps) (length pp). fst (ps ! i) \<noteq> fst (pp ! i)"
    by (auto simp: keys_check_iff)
  with set_params_mismatch [OF assms False] show ?thesis by simp
qed

lemma get_param_values_set:
  "policy_params self = Some ps \<Longrightarrow> default_session w = Some sess \<Longrightarrow>
   get_param_values self w = Inr (map (\<lambda>(k, var). (k, sess (var_id var))) ps)"
  by (simp add: get_param_values_def)

subsection \<open>Ordered dictionaries and the placeholders\<close>

lemma set_update_subset: "set (AList.update k v al) \<subseteq> insert (k, v) (set al)"
  by (induction al) auto

lemma keys_update: "fst ` set (AList.update k v al) = insert k (fst ` set al)"
  by (induction al) auto

lemma update_fresh: "k \<notin> fst ` set al \<Longrightarrow> AList.update k v al = al @ [(k, v)]"
  by (induction al) auto

lemma fold_update_keys:
  "fst ` set (fold (\<lambda>(k, v) d. AList.update k v d) ps acc) = fst ` set acc \<union> fst ` set ps"
  by (induction ps arbitrary: acc) (auto simp: keys_update split: prod.splits)

lemma fold_update_distinct:
  "distinct (map fst acc) \<Longrightarrow> distinct (map fst (fold (\<lambda>(k, v) d. AList.update k v d) ps acc))"
  by (induction ps arbitrary: acc) (auto simp: distinct_update split: prod.splits)

lemma fold_update_subset:
  "set (fold (\<lambda>(k, v) d. AList.update k v d) ps acc) \<subseteq> set acc \<union> set ps"
proof (induction ps arbitrary: acc)
  case Nil
  then show ?case by simp
next
  case (Cons a ps)
  obtain k v where a: "a = (k, v)" by (cases a)
  have "set (fold (\<lambda>(k, v) d. AList.update k v d) ps (AList.update k v acc))
      \<subseteq> set (AList.update k v acc) \<union> set ps"
    by (rule Cons.IH)
  with set_update_subset [of k v acc] show ?case
    by (auto simp: a)
qed

lemma fold_update_append:
  "distinct (map fst (acc @ ps)) \<Longrightarrow> fold (\<lambda>(k, v) d. AList.update k v d) ps acc = acc @ ps"
proof (induction ps arbitrary: acc)
  case Nil
  then show ?case by simp
next
  case (Cons a ps)
  obtain k v where a: "a = (k, v)" by (cases a)
  from Cons.prems have fresh: "k \<notin> fst ` set acc" by (auto simp: a)
  from Cons.prems have "distinct (map fst ((acc @ [(k, v)]) @ ps))" by (simp add: a)
  from Cons.IH [OF this] fresh show ?case
    by (simp add: a update_fresh)
qed

lemma OrderedDict_keys: "fst ` set (OrderedDict pairs) = fst ` set pairs"
  by (simp add: OrderedDict_def fold_update_keys)

lemma OrderedDict_distinct: "distinct (map fst (OrderedDict pairs))"
  by (simp add: OrderedDict_def fold_update_distinct)

lemma OrderedDict_subset: "set (OrderedDict pairs) \<subseteq> set pairs"
  using fold_update_subset [of pairs "[]"] by (simp add: OrderedDict_def)

lemma OrderedDict_distinct_keys: "distinct (map fst pairs) \<Longrightarrow> OrderedDict pairs = pairs"
  using fold_update_append [of "[]" pairs] by (simp add: OrderedDict_def)

lemma range_const: "map (\<lambda>_. x) [0..m - 1] = replicate (nat m) x"
  by (simp add: map_replicate_const)

lemma create_placeholders_returns:
  assumes "is_list_or_tuple scopes"
  shows "create_placeholders_for_vars get_collection remove_scope_from_name self scopes m graph_keys
    = Inr (map (\<lambda>scope. replicate (nat m)
             (OrderedDict (map (\<lambda>var. (remove_scope_from_name (var_name var) scope,
                                         Placeholder Float32 (var_shape var)))
                             (get_collection graph_keys scope))))
           (elements scopes))"
  using assms by (simp add: create_placeholders_for_vars_def range_const)

lemma create_placeholders_raises:
  assumes "\<not> is_list_or_tuple scopes"
  shows "create_placeholders_for_vars get_collection remove_scope_from_name self scopes m graph_keys
    = Inl AssertionError"
  using assms by (simp add: create_placeholders_for_vars_def)

subsection \<open>Which value an ordered dictionary keeps, and the order of its keys\<close>

lemma fold_update_map_of:
  "map_of (fold (\<lambda>(k, v) d. AList.update k v d) ps acc) = map_of acc ++ map_of (rev ps)"
  by (induction ps arbitrary: acc)
     (auto simp: update_conv' fun_eq_iff map_add_def split: prod.splits option.splits)

lemma OrderedDict_map_of: "map_of (OrderedDict pairs) = map_of (rev pairs)"
  by (simp add: OrderedDict_def fold_update_map_of)

lemma map_of_rev_last:
  assumes "j < length ps"
    and "\<forall>j'. j < j' \<and> j' < length ps \<longrightarrow> fst (ps ! j') \<noteq> fst (ps ! j)"
  shows "map_of (rev ps) (fst (ps ! j)) = Some (snd (ps ! j))"
proof -
  from assms(1) have split: "ps = take j ps @ ps ! j # drop (Suc j) ps"
    by (simp add: id_take_nth_drop)
  have later: "fst (ps ! j) \<notin> fst ` set (drop (Suc j) ps)"
  proof
    assume "fst (ps ! j) \<in> fst ` set (drop (Suc j) ps)"
    then obtain i where "i < length (drop (Suc j) ps)" and "fst (drop (Suc j) ps ! i) = fst (ps ! j)"
      by (auto simp: in_set_conv_nth)
    then have "Suc j + i < length ps" and "fst (ps ! (Suc j + i)) = fst (ps ! j)"
      by simp_all
    with assms(2) show False by (metis less_add_Suc1 add_Suc)
  qed
  have "rev ps = rev (drop (Suc j) ps) @ ps ! j # rev (take j ps)"
    by (subst split) simp
  then have "map_of (rev ps) (fst (ps ! j))
      = (map_of (ps ! j # rev (take j ps)) ++ map_of (rev (drop (Suc j) ps))) (fst (ps ! j))"
    by (simp only: map_of_append)
  also from later have "\<dots> = map_of (ps ! j # rev (take j ps)) (fst (ps ! j))"
    by (simp add: map_add_def map_of_eq_None_iff [THEN iffD2] split: option.splits)
  also have "\<dots> = Some (snd (ps ! j))"
    by (cases "ps ! j") simp
  finally show ?thesis .
qed

lemma remdups_snoc: "remdups (xs @ [k]) = remdups (filter (\<lambda>x. x \<noteq> k) xs) @ [k]"
  by (induction xs) auto

lemma fold_update_key_order:
  "map fst (fold (\<lambda>(k, v) d. AList.update k v d) ps acc)
   = map fst acc @ rev (remdups (rev (filter (\<lambda>k. k \<notin> fst ` set acc) (map fst ps))))"
proof (induction ps arbitrary: acc)
  case Nil
  then show ?case by simp
next
  case (Cons a ps)
  obtain k v where a: "a = (k, v)" by (cases a)
  show ?case
  proof (cases "k \<in> fst ` set acc")
    case True
    then have "map fst (AList.update k v acc) = map fst acc"
      by (simp add: update_keys)
    moreover from this have "fst ` set (AList.update k v acc) = fst ` set acc"
      by (metis set_map)
    ultimately show ?thesis
      using Cons.IH [of "AList.update k v acc"] True by (simp add: a)
  next
    case False
    then have keys: "map fst (AList.update k v acc) = map fst acc @ [k]"
      by (simp add: update_keys)
    then have set_keys: "fst ` set (AList.update k v acc) = insert k (fst ` set acc)"
      by (metis Un_insert_right append_Nil2 list.simps(15) set_append set_map)
    have "filter (\<lambda>x. x \<notin> insert k (fst ` set acc)) (map fst ps)
        = filter (\<lambda>x. x \<noteq> k) (filter (\<lambda>x. x \<notin> fst ` set acc) (map fst ps))"
      by (auto intro: filter_cong)
    then show ?thesis
      using Cons.IH [of "AList.update k v acc"] False
      by (simp add: a keys set_keys remdups_snoc rev_filter)
  qed
qed

lemma OrderedDict_key_order:
  "map fst (OrderedDict pairs) = rev (remdups (rev (map fst pairs)))"
  using fold_update_key_order [of pairs "[]"] by (simp add: OrderedDict_def)

section \<open>The claims\<close>

subsection \<open>C1: the stubs named by the specification\<close>

text \<open>
  C1. On every instance and for every argument, \<open>build_graph\<close> (of \<open>Policy\<close> and as
  \<open>MetaPolicy\<close> overrides it), \<open>get_action\<close>, \<open>distribution_info_sym\<close> and
  \<open>_get_post_update_actions\<close> raise \<open>NotImplementedError\<close>.
\<close>

theorem C1_stubs_raise:
  "fst (Policy_build_graph self) = Inl NotImplementedError
   \<and> fst (MetaPolicy_build_graph mself) = Inl NotImplementedError
   \<and> fst (get_action self observation) = Inl NotImplementedError
   \<and> fst (distribution_info_sym self obs_var params) = Inl NotImplementedError
   \<and> fst (get_post_update_actions mself observations) = Inl NotImplementedError"
  by (simp add: Policy_build_graph_def MetaPolicy_build_graph_def get_action_def
      distribution_info_sym_def get_post_update_actions_def)

subsection \<open>C2: which methods are stubs\<close>

text \<open>
  C2. Not every method is a stub. The methods \<open>build_graph\<close>, \<open>get_action\<close>,
  \<open>Policy.get_actions\<close>, \<open>distribution\<close>, \<open>distribution_info_sym\<close>,
  \<open>distribution_info_keys\<close>, \<open>_get_pre_update_actions\<close> and
  \<open>_get_post_update_actions\<close>, and with them \<open>get_actions\<close> on an instance of
  \<open>MetaPolicy\<close> itself, raise \<open>NotImplementedError\<close> on every instance and for every
  argument. \<open>reset\<close> and \<open>log_diagnostics\<close> return \<open>None\<close> and leave the instance as it
  was; \<open>switch_to_pre_update\<close> and \<open>update_task_parameters\<close> run to completion and
  return \<open>None\<close>; \<open>get_params\<close>, \<open>get_param_values\<close>, \<open>set_params\<close>,
  \<open>__getstate__\<close> and \<open>_create_placeholders_for_vars\<close> have bodies of their own and
  never raise \<open>NotImplementedError\<close>.
\<close>

theorem C2_operational_methods:
  "fst (Policy_build_graph self) = Inl NotImplementedError
   \<and> fst (MetaPolicy_build_graph mself) = Inl NotImplementedError
   \<and> fst (get_action self observation) = Inl NotImplementedError
   \<and> fst (Policy_get_actions self observations) = Inl NotImplementedError
   \<and> fst (distribution self) = Inl NotImplementedError
   \<and> fst (distribution_info_sym self obs_var params) = Inl NotImplementedError
   \<and> fst (distribution_info_keys self obs state_infos) = Inl NotImplementedError
   \<and> fst (get_pre_update_actions mself observations) = Inl NotImplementedError
   \<and> fst (get_post_update_actions mself observations) = Inl NotImplementedError
   \<and> fst (MetaPolicy_get_actions mself observations) = Inl NotImplementedError
   \<and> reset self dones = (Inr PyNone, self)
   \<and> log_diagnostics self paths = (Inr PyNone, self)
   \<and> fst (switch_to_pre_update mself) = Inr PyNone
   \<and> fst (update_task_parameters mself p) = Inr PyNone
   \<and> get_params self \<noteq> Inl NotImplementedError
   \<and> get_param_values self w \<noteq> Inl NotImplementedError
   \<and> fst (set_params self pp w) \<noteq> Inl NotImplementedError
   \<and> Policy_getstate Serializable_getstate self w \<noteq> Inl NotImplementedError
   \<and> create_placeholders_for_vars get_collection remove_scope_from_name mself scopes m graph_keys
       \<noteq> Inl NotImplementedError"
proof -
  have stubs: "fst (Policy_build_graph self) = Inl NotImplementedError
   \<and> fst (MetaPolicy_build_graph mself) = Inl NotImplementedError
   \<and> fst (get_action self observation) = Inl NotImplementedError
   \<and> fst (Policy_get_actions self observations) = Inl NotImplementedError
   \<and> fst (distribution self) = Inl NotImplementedError
   \<and> fst (distribution_info_sym self obs_var params) = Inl NotImplementedError
   \<and> fst (distribution_info_keys self obs state_infos) = Inl NotImplementedError
   \<and> fst (get_pre_update_actions mself observations) = Inl NotImplementedError
   \<and> fst (get_post_update_actions mself observations) = Inl NotImplementedError
   \<and> fst (MetaPolicy_get_actions mself observations) = Inl NotImplementedError"
    by (simp add: Policy_build_graph_def MetaPolicy_build_graph_def get_action_def
        Policy_get_actions_def distribution_def distribution_info_sym_def
        distribution_info_keys_def get_pre_update_actions_def get_post_update_actions_def
        MetaPolicy_get_actions_def get_actions_via_def)
  have completes: "reset self dones = (Inr PyNone, self)
   \<and> log_diagnostics self paths = (Inr PyNone, self)
   \<and> fst (switch_to_pre_update mself) = Inr PyNone
   \<and> fst (update_task_parameters mself p) = Inr PyNone"
    by (simp add: reset_def log_diagnostics_def switch_to_pre_update_def
        update_task_parameters_def)
  have 1: "get_params self \<noteq> Inl NotImplementedError"
    by (simp add: get_params_def split: option.splits)
  have 2: "get_param_values self w \<noteq> Inl NotImplementedError"
    by (simp add: get_param_values_def split: option.splits)
  have 3: "fst (set_params self pp w) \<noteq> Inl NotImplementedError"
    by (simp add: set_params_def get_params_def Let_def split: option.splits)
  have 4: "Policy_getstate Serializable_getstate self w \<noteq> Inl NotImplementedError"
    using 2 by (auto simp: Policy_getstate_def split: sum.splits)
  have 5: "create_placeholders_for_vars get_collection remove_scope_from_name mself scopes m
      graph_keys \<noteq> Inl NotImplementedError"
    by (simp add: create_placeholders_for_vars_def)
  from stubs completes 1 2 3 4 5 show ?thesis by blast
qed

text \<open>
  The statement that every operational method raises fails on a new \<open>MetaPolicy\<close>:
  \<open>reset(None)\<close> returns \<open>None\<close>, and so do \<open>switch_to_pre_update()\<close> and
  \<open>update_task_parameters([{'w': 1}])\<close>.
\<close>

theorem C2_methods_complete_counterexample:
  "reset (MetaPolicy_init (\<lambda>l. l) (3 :: int, 2 :: int)) PyNone
     = (Inr PyNone, MetaPolicy_init (\<lambda>l. l) (3, 2))
   \<and> fst (switch_to_pre_update (MetaPolicy_init (\<lambda>l. l) (3 :: int, 2 :: int))) = Inr PyNone
   \<and> fst (update_task_parameters (MetaPolicy_init (\<lambda>l. l) (3 :: int, 2 :: int))
        (PyList [PyDict [(''w'', PyInt 1)]])) = Inr PyNone"
  by (simp add: reset_def switch_to_pre_update_def update_task_parameters_def)

subsection \<open>C3: the two mode switches\<close>

text \<open>
  C3. \<open>update_task_parameters(p)\<close> stores \<open>p\<close> in \<open>policies_params_vals\<close> and leaves
  \<open>_pre_update_mode\<close> false; \<open>switch_to_pre_update()\<close> sets \<open>_pre_update_mode\<close> to true
  and \<open>policies_params_vals\<close> to \<open>None\<close>. Both return \<open>None\<close> and touch no other attribute.
\<close>

theorem C3_mode_switches:
  "update_task_parameters self p =
     (Inr PyNone, self\<lparr>policies_params_vals := p, pre_update_mode := False\<rparr>)
   \<and> policies_params_vals (snd (update_task_parameters self p)) = p
   \<and> pre_update_mode (snd (update_task_parameters self p)) = False
   \<and> switch_to_pre_update self =
     (Inr PyNone, self\<lparr>pre_update_mode := True, policies_params_vals := PyNone\<rparr>)
   \<and> pre_update_mode (snd (switch_to_pre_update self)) = True
   \<and> policies_params_vals (snd (switch_to_pre_update self)) = PyNone"
  by (simp add: update_task_parameters_def switch_to_pre_update_def)

subsection \<open>C4: the mode invariant\<close>

text \<open>
  C4. \<open>__init__\<close> starts in pre-update mode with \<open>policies_params_vals\<close> set to \<open>None\<close>,
  and after any sequence of calls of \<open>switch_to_pre_update\<close> and of
  \<open>update_task_parameters\<close> with an argument other than \<open>None\<close>, \<open>_pre_update_mode\<close> is
  true exactly when \<open>policies_params_vals\<close> is \<open>None\<close>.
\<close>

theorem C4_mode_invariant:
  assumes "list_all arg_not_None cs"
  shows "pre_update_mode (MetaPolicy_init quick_init locals) = True
   \<and> policies_params_vals (MetaPolicy_init quick_init locals) = PyNone
   \<and> (pre_update_mode (do_calls cs (MetaPolicy_init quick_init locals))
        = (policies_params_vals (do_calls cs (MetaPolicy_init quick_init locals)) = PyNone))"
proof -
  have "mode_invariant (do_calls cs (MetaPolicy_init quick_init locals))"
    unfolding do_calls_def using mode_invariant_init assms by (rule mode_invariant_fold)
  then show ?thesis
    by (simp add: mode_invariant_def MetaPolicy_init_def Policy_init_def
        policy.defs meta_policy.defs)
qed

text \<open>
  After \<open>update_task_parameters([{'w': 1}])\<close>, \<open>switch_to_pre_update()\<close> and
  \<open>update_task_parameters([])\<close> the instance is in post-update mode and holds the empty
  list.
\<close>

theorem C4_mode_invariant_witness:
  "list_all arg_not_None
     [Update_task_parameters (PyList [PyDict [(''w'', PyInt 1)]]), Switch_to_pre_update,
      Update_task_parameters (PyList [])]
   \<and> pre_update_mode
       (do_calls
          [Update_task_parameters (PyList [PyDict [(''w'', PyInt 1)]]), Switch_to_pre_update,
           Update_task_parameters (PyList [])]
          (MetaPolicy_init (\<lambda>l. l) (3::int, 2::int))) = False
   \<and> policies_params_vals
       (do_calls
          [Update_task_parameters (PyList [PyDict [(''w'', PyInt 1)]]), Switch_to_pre_update,
           Update_task_parameters (PyList [])]
          (MetaPolicy_init (\<lambda>l. l) (3::int, 2::int))) = PyList []"
proof -
  have h: "list_all arg_not_None
     [Update_task_parameters (PyList [PyDict [(''w'', PyInt 1)]]), Switch_to_pre_update,
      Update_task_parameters (PyList [])]"
    by simp
  have v: "policies_params_vals
       (do_calls
          [Update_task_parameters (PyList [PyDict [(''w'', PyInt 1)]]), Switch_to_pre_update,
           Update_task_parameters (PyList [])]
          (MetaPolicy_init (\<lambda>l. l) (3::int, 2::int))) = PyList []"
    by (simp add: do_calls_def update_task_parameters_def switch_to_pre_update_def)
  from C4_mode_invariant [OF h, of "\<lambda>l. l" "(3::int, 2::int)"] h v show ?thesis
    by simp
qed

subsection \<open>C5: the dispatch of get_actions\<close>

text \<open>
  C5. \<open>get_actions\<close> of \<open>MetaPolicy\<close> is the call of \<open>_get_pre_update_actions\<close> when
  \<open>_pre_update_mode\<close> is true and of \<open>_get_post_update_actions\<close> when it is false: the
  same outcome and the same instance afterwards, so \<open>get_actions\<close> writes no attribute
  of its own. On an instance of \<open>MetaPolicy\<close> itself both helpers are the stubs, and
  \<open>get_actions\<close> raises \<open>NotImplementedError\<close> in either mode, leaving the instance as
  it was.
\<close>

theorem C5_get_actions:
  "(pre_update_mode self \<longrightarrow>
      get_actions_via pre_helper post_helper self observations
        = pre_helper self observations)
   \<and> (\<not> pre_update_mode self \<longrightarrow>
      get_actions_via pre_helper post_helper self observations
        = post_helper self observations)
   \<and> get_pre_update_actions self observations = (Inl NotImplementedError, self)
   \<and> get_post_update_actions self observations = (Inl NotImplementedError, self)
   \<and> MetaPolicy_get_actions self observations = (Inl NotImplementedError, self)"
  by (simp add: get_actions_via_def MetaPolicy_get_actions_def get_pre_update_actions_def
      get_post_update_actions_def)

text \<open>
  With a helper that returns its observations, \<open>get_actions\<close> returns them in the mode
  that selects this helper: before and after \<open>update_task_parameters([])\<close>.
\<close>

theorem C5_get_actions_witness:
  "pre_update_mode (MetaPolicy_init (\<lambda>l. l) (3::int, 2::int))
   \<and> get_actions_via (\<lambda>s obs. (Inr obs, s)) get_post_update_actions
        (MetaPolicy_init (\<lambda>l. l) (3::int, 2::int)) (PyList [PyInt 7])
       = (Inr (PyList [PyInt 7]), MetaPolicy_init (\<lambda>l. l) (3::int, 2::int))
   \<and> \<not> pre_update_mode
        (snd (update_task_parameters (MetaPolicy_init (\<lambda>l. l) (3::int, 2::int)) (PyList [])))
   \<and> get_actions_via get_pre_update_actions (\<lambda>s obs. (Inr obs, s))
        (snd (update_task_parameters (MetaPolicy_init (\<lambda>l. l) (3::int, 2::int)) (PyList [])))
        (PyList [PyInt 7])
       = (Inr (PyList [PyInt 7]),
          snd (update_task_parameters (MetaPolicy_init (\<lambda>l. l) (3::int, 2::int)) (PyList [])))"
proof -
  have pre: "pre_update_mode (MetaPolicy_init (\<lambda>l. l) (3::int, 2::int))"
    by (simp add: MetaPolicy_init_def Policy_init_def policy.defs meta_policy.defs)
  have post: "\<not> pre_update_mode
        (snd (update_task_parameters (MetaPolicy_init (\<lambda>l. l) (3::int, 2::int)) (PyList [])))"
    by (simp add: update_task_parameters_def)
  from pre post
    C5_get_actions [of "MetaPolicy_init (\<lambda>l. l) (3::int, 2::int)"
      "\<lambda>s obs. (Inr obs, s)" get_post_update_actions "PyList [PyInt 7]"]
    C5_get_actions [of
      "snd (update_task_parameters (MetaPolicy_init (\<lambda>l. l) (3::int, 2::int)) (PyList []))"
      get_pre_update_actions "\<lambda>s obs. (Inr obs, s)" "PyList [PyInt 7]"]
  show ?thesis by simp
qed

subsection \<open>C6: placeholders for the variables of the scopes\<close>

text \<open>
  C6. When \<open>scopes\<close> is a list or a tuple and \<open>meta_batch_size\<close> is not negative,
  \<open>_create_placeholders_for_vars\<close> returns a list with one entry per scope, and each
  entry is a list of \<open>meta_batch_size\<close> ordered dicts. The keys of each dict are the
  scope-stripped names of the variables collected for the scope, each once, in the
  order of their first occurrence. The dict maps the stripped name of a collected
  variable to a \<open>float32\<close> placeholder of that variable's shape, provided that no later
  variable of the collection has the same stripped name: of several variables with
  one stripped name the last gives the shape. When the stripped names are pairwise
  distinct, the dict is the list of these pairs in the order of the collection. When
  \<open>meta_batch_size\<close> is negative each entry is the empty list. When \<open>scopes\<close> is
  neither a list nor a tuple the method raises \<open>AssertionError\<close>.
\<close>

theorem C6_create_placeholders:
  fixes get_collection :: "'g \<Rightarrow> pyval \<Rightarrow> tf_variable list"
    and remove_scope_from_name :: "string \<Rightarrow> pyval \<Rightarrow> string"
  shows "(is_list_or_tuple scopes \<and> 0 \<le> m \<longrightarrow>
      (\<exists>placeholders.
         create_placeholders_for_vars get_collection remove_scope_from_name self scopes m graph_keys
           = Inr placeholders
         \<and> length placeholders = length (elements scopes)
         \<and> (\<forall>i < length (elements scopes).
              int (length (placeholders ! i)) = m
              \<and> (\<forall>d \<in> set (placeholders ! i).
                   distinct (map fst d)
                   \<and> fst ` set d
                       = (\<lambda>var. remove_scope_from_name (var_name var) (elements scopes ! i))
                           ` set (get_collection graph_keys (elements scopes ! i))
                   \<and> map fst d
                       = rev (remdups (rev
                           (map (\<lambda>var. remove_scope_from_name (var_name var) (elements scopes ! i))
                              (get_collection graph_keys (elements scopes ! i)))))
                   \<and> (\<forall>j < length (get_collection graph_keys (elements scopes ! i)).
                        (\<forall>j'. j < j' \<and> j' < length (get_collection graph_keys (elements scopes ! i))
                           \<longrightarrow> remove_scope_from_name
                                 (var_name (get_collection graph_keys (elements scopes ! i) ! j'))
                                 (elements scopes ! i)
                               \<noteq> remove_scope_from_name
                                   (var_name (get_collection graph_keys (elements scopes ! i) ! j))
                                   (elements scopes ! i))
                        \<longrightarrow> map_of d
                              (remove_scope_from_name
                                 (var_name (get_collection graph_keys (elements scopes ! i) ! j))
                                 (elements scopes ! i))
                            = Some (Placeholder Float32
                                 (var_shape (get_collection graph_keys (elements scopes ! i) ! j))))
                   \<and> (distinct (map (\<lambda>var. remove_scope_from_name (var_name var) (elements scopes ! i))
                                  (get_collection graph_keys (elements scopes ! i))) \<longrightarrow>
                        d = map (\<lambda>var. (remove_scope_from_name (var_name var) (elements scopes ! i),
                                         Placeholder Float32 (var_shape var)))
                              (get_collection graph_keys (elements scopes ! i)))))))
   \<and> (is_list_or_tuple scopes \<and> m < 0 \<longrightarrow>
        create_placeholders_for_vars get_collection remove_scope_from_name self scopes m graph_keys
          = Inr (map (\<lambda>scope. []) (elements scopes)))
   \<and> (\<not> is_list_or_tuple scopes \<longrightarrow>
        create_placeholders_for_vars get_collection remove_scope_from_name self scopes m graph_keys
          = Inl AssertionError)"
    (is "(_ \<longrightarrow> ?returns) \<and> (_ \<longrightarrow> ?negative) \<and> (_ \<longrightarrow> ?raises)")
proof (intro conjI impI)
  assume "is_list_or_tuple scopes \<and> 0 \<le> m"
  then have seq: "is_list_or_tuple scopes" and m: "0 \<le> m" by simp_all
  let ?name = "\<lambda>scope var. remove_scope_from_name (var_name var) scope"
  let ?pairs = "\<lambda>scope. map (\<lambda>var. (?name scope var, Placeholder Float32 (var_shape var)))
                          (get_collection graph_keys scope)"
  let ?phs = "map (\<lambda>scope. replicate (nat m) (OrderedDict (?pairs scope))) (elements scopes)"
  have entry: "\<forall>d \<in> set (?phs ! i).
        distinct (map fst d)
      \<and> fst ` set d = ?name (elements scopes ! i)
                           ` set (get_collection graph_keys (elements scopes ! i))
      \<and> map fst d
          = rev (remdups (rev (map (?name (elements scopes ! i))
                                 (get_collection graph_keys (elements scopes ! i)))))
      \<and> (\<forall>j < length (get_collection graph_keys (elements scopes ! i)).
            (\<forall>j'. j < j' \<and> j' < length (get_collection graph_keys (elements scopes ! i))
               \<longrightarrow> ?name (elements scopes ! i) (get_collection graph_keys (elements scopes ! i) ! j')
                   \<noteq> ?name (elements scopes ! i) (get_collection graph_keys (elements scopes ! i) ! j))
            \<longrightarrow> map_of d (?name (elements scopes ! i) (get_collection graph_keys (elements scopes ! i) ! j))
                = Some (Placeholder Float32
                     (var_shape (get_collection graph_keys (elements scopes ! i) ! j))))
      \<and> (distinct (map (?name (elements scopes ! i))
                      (get_collection graph_keys (elements scopes ! i))) \<longrightarrow>
            d = ?pairs (elements scopes ! i))"
    if i: "i < length (elements scopes)" for i
  proof
    fix d assume d: "d \<in> set (?phs ! i)"
    let ?s = "elements scopes ! i"
    let ?vars = "get_collection graph_keys ?s"
    from i d have d_eq: "d = OrderedDict (?pairs ?s)"
      by (simp split: if_splits)
    have keys: "map fst (?pairs ?s) = map (?name ?s) ?vars"
      by (simp add: comp_def)
    have 1: "distinct (map fst d)"
      by (simp only: d_eq OrderedDict_distinct)
    have 2: "fst ` set d = ?name ?s ` set ?vars"
      by (simp add: d_eq OrderedDict_keys image_image)
    have 3: "map fst d = rev (remdups (rev (map (?name ?s) ?vars)))"
      by (simp only: d_eq OrderedDict_key_order keys)
    have 4: "map_of d (?name ?s (?vars ! j)) = Some (Placeholder Float32 (var_shape (?vars ! j)))"
      if j: "j < length ?vars"
        and last: "\<forall>j'. j < j' \<and> j' < length ?vars \<longrightarrow> ?name ?s (?vars ! j') \<noteq> ?name ?s (?vars ! j)"
      for j
    proof -
      from j have jp: "j < length (?pairs ?s)" by simp
      from last j have "\<forall>j'. j < j' \<and> j' < length (?pairs ?s)
          \<longrightarrow> fst (?pairs ?s ! j') \<noteq> fst (?pairs ?s ! j)"
        by simp
      from map_of_rev_last [OF jp this] j show ?thesis
        by (simp add: d_eq OrderedDict_map_of)
    qed
    have 5: "distinct (map (?name ?s) ?vars) \<longrightarrow> d = ?pairs ?s"
      by (simp add: d_eq OrderedDict_distinct_keys comp_def)
    from 1 2 3 4 5
    show "distinct (map fst d)
      \<and> fst ` set d = ?name ?s ` set ?vars
      \<and> map fst d = rev (remdups (rev (map (?name ?s) ?vars)))
      \<and> (\<forall>j < length ?vars.
            (\<forall>j'. j < j' \<and> j' < length ?vars \<longrightarrow> ?name ?s (?vars ! j') \<noteq> ?name ?s (?vars ! j))
            \<longrightarrow> map_of d (?name ?s (?vars ! j))
                = Some (Placeholder Float32 (var_shape (?vars ! j))))
      \<and> (distinct (map (?name ?s) ?vars) \<longrightarrow> d = ?pairs ?s)"
      by blast
  qed
  have len: "int (length (?phs ! i)) = m" if "i < length (elements scopes)" for i
    using that m by simp
  show ?returns
    apply (intro exI [of _ ?phs] conjI allI impI)
       apply (rule create_placeholders_returns [OF seq])
      apply simp
     apply (erule len)
    apply (erule entry)
    done
next
  assume "is_list_or_tuple scopes \<and> m < 0"
  then show ?negative
    by (simp add: create_placeholders_returns)
next
  assume "\<not> is_list_or_tuple scopes"
  then show ?raises
    by (rule create_placeholders_raises)
qed

text \<open>
  For the scope \<open>policy\<close> and a batch size of 2 the entry holds two dicts with the keys
  \<open>w\<close> and \<open>b\<close>; the string \<open>'policy'\<close> in place of the list raises.
\<close>

theorem C6_create_placeholders_witness:
  "is_list_or_tuple (PyList [PyStr ''policy'']) \<and> (0 :: int) \<le> 2
   \<and> create_placeholders_for_vars policy_collection drop_scope
        (MetaPolicy_init (\<lambda>l. l) (3 :: int, 2 :: int)) (PyList [PyStr ''policy'']) 2 ()
      = Inr [[[(''w'', Placeholder Float32 [3, 2]), (''b'', Placeholder Float32 [2])],
              [(''w'', Placeholder Float32 [3, 2]), (''b'', Placeholder Float32 [2])]]]
   \<and> create_placeholders_for_vars policy_collection drop_scope
        (MetaPolicy_init (\<lambda>l. l) (3 :: int, 2 :: int)) (PyStr ''policy'') 2 ()
      = Inl AssertionError"
proof -
  have seq: "is_list_or_tuple (PyList [PyStr ''policy'']) \<and> (0 :: int) \<le> 2"
    by simp
  have names: "distinct (map (\<lambda>var. drop_scope (var_name var) (PyStr ''policy''))
      (policy_collection () (PyStr ''policy'')))"
    by (simp add: policy_collection_def drop_scope_def w_var_def b_var_def)
  from C6_create_placeholders [of "PyList [PyStr ''policy'']" 2 policy_collection drop_scope
      "MetaPolicy_init (\<lambda>l. l) (3 :: int, 2 :: int)" "()"] seq
  obtain placeholders where
    r: "create_placeholders_for_vars policy_collection drop_scope
        (MetaPolicy_init (\<lambda>l. l) (3 :: int, 2 :: int)) (PyList [PyStr ''policy'']) 2 ()
      = Inr placeholders"
    and l: "length placeholders = 1"
    and e: "int (length (placeholders ! 0)) = 2
      \<and> (\<forall>d \<in> set (placeholders ! 0).
            d = map (\<lambda>var. (drop_scope (var_name var) (PyStr ''policy''),
                            Placeholder Float32 (var_shape var)))
                  (policy_collection () (PyStr ''policy'')))"
    using names by auto
  from e have "placeholders ! 0 =
      [[(''w'', Placeholder Float32 [3, 2]), (''b'', Placeholder Float32 [2])],
       [(''w'', Placeholder Float32 [3, 2]), (''b'', Placeholder Float32 [2])]]"
    by (cases "placeholders ! 0"; cases "tl (placeholders ! 0)")
       (auto simp: policy_collection_def drop_scope_def w_var_def b_var_def)
  with l have "placeholders =
      [[[(''w'', Placeholder Float32 [3, 2]), (''b'', Placeholder Float32 [2])],
        [(''w'', Placeholder Float32 [3, 2]), (''b'', Placeholder Float32 [2])]]]"
    by (cases placeholders) auto
  with r have a: "create_placeholders_for_vars policy_collection drop_scope
        (MetaPolicy_init (\<lambda>l. l) (3 :: int, 2 :: int)) (PyList [PyStr ''policy'']) 2 ()
      = Inr [[[(''w'', Placeholder Float32 [3, 2]), (''b'', Placeholder Float32 [2])],
              [(''w'', Placeholder Float32 [3, 2]), (''b'', Placeholder Float32 [2])]]]"
    by simp
  from C6_create_placeholders [of "PyStr ''policy''" 2 policy_collection drop_scope
      "MetaPolicy_init (\<lambda>l. l) (3 :: int, 2 :: int)" "()"]
  have b: "create_placeholders_for_vars policy_collection drop_scope
        (MetaPolicy_init (\<lambda>l. l) (3 :: int, 2 :: int)) (PyStr ''policy'') 2 ()
      = Inl AssertionError"
    by simp
  from seq a b show ?thesis by blast
qed

text \<open>
  A list of \<open>meta_batch_size\<close> dicts, each giving every collected variable a placeholder
  of its own shape, fails in two ways. At \<open>meta_batch_size = -1\<close> the range is empty and
  the entry of the scope is the empty list. And for a collection with the stripped
  names \<open>x\<close>, \<open>y\<close>, \<open>x\<close> and the shapes \<open>[1]\<close>, \<open>[5]\<close>, \<open>[2]\<close>, at
  \<open>meta_batch_size = 1\<close>, the dict maps \<open>x\<close> to a placeholder of shape \<open>[2]\<close>: the first
  variable, of shape \<open>[1]\<close>, has no placeholder of its shape.
\<close>

theorem C6_original_counterexample:
  "create_placeholders_for_vars policy_collection drop_scope
     (MetaPolicy_init (\<lambda>l. l) (3 :: int, 2 :: int)) (PyList [PyStr ''policy'']) (- 1) ()
   = Inr [[]]
   \<and> map (\<lambda>var. (drop_scope (var_name var) (PyStr ''policy''), var_shape var))
        (shared_name_collection () (PyStr ''policy''))
     = [(''x'', [1]), (''y'', [5]), (''x'', [2])]
   \<and> create_placeholders_for_vars shared_name_collection drop_scope
        (MetaPolicy_init (\<lambda>l. l) (3 :: int, 2 :: int)) (PyList [PyStr ''policy'']) 1 ()
     = Inr [[[(''x'', Placeholder Float32 [2]), (''y'', Placeholder Float32 [5])]]]"
  by (simp add: create_placeholders_for_vars_def OrderedDict_def shared_name_collection_def
      drop_scope_def)

subsection \<open>C7: the assertion of set_params\<close>



subsection \<open>C8: pickling and unpickling\<close>

text \<open>
  C8. On an instance whose \<open>policy_params\<close> is set, with a default session,
  \<open>__getstate__\<close> returns the dict of the serialized constructor arguments and of the
  values \<open>get_param_values()\<close> reads in the session. For \<open>__setstate__\<close> applied to
  that dict: when \<open>Serializable.__setstate__\<close> returns, a default session exists, and
  the instance as rebuilt has the same parameter keys in the same order, bound to
  pairwise distinct variables, then \<open>__setstate__\<close> returns \<open>None\<close>, the session is the
  session after the initializer of the global variables with the saved values
  assigned to the variables, and \<open>get_param_values()\<close> reads the saved values.
\<close>

theorem C8_pickle_roundtrip:
  fixes self :: "('a, 'z) policy_scheme" and w :: "'v tf_world"
    and Serializable_getstate :: "('a, 'z) policy_scheme \<Rightarrow> 'd"
  assumes ps: "policy_params self = Some ps" and sess: "default_session w = Some sess"
  shows "\<exists>state.
     Policy_getstate Serializable_getstate self w = Inr state
     \<and> init_args state = Serializable_getstate self
     \<and> get_param_values self w = Inr (network_params state)
     \<and> network_params state = map (\<lambda>(k, var). (k, sess (var_id var))) ps
     \<and> (\<forall>(Serializable_setstate ::
              'd \<Rightarrow> ('b, 'y) policy_scheme \<Rightarrow> 'v tf_world \<Rightarrow>
              pyval result \<times> ('b, 'y) policy_scheme \<times> 'v tf_world)
            other w0 r self1 w1 sess1 ps1.
          Serializable_setstate (init_args state) other w0 = (Inr r, self1, w1)
          \<and> default_session w1 = Some sess1
          \<and> policy_params self1 = Some ps1
          \<and> map fst ps1 = map fst ps
          \<and> distinct (map (\<lambda>p. var_id (snd p)) ps1)
          \<longrightarrow>
          (\<exists>w2. Policy_setstate Serializable_setstate other state w0 = (Inr PyNone, self1, w2)
             \<and> w2 = w1\<lparr>default_session := Some (run_assign (run_initializer w1 sess1)
                     (map (\<lambda>(var, (param_name, var_value)). (var, var_value))
                        (zip (map snd ps1) (network_params state))))\<rparr>
             \<and> get_param_values self1 w2 = Inr (network_params state)))"
proof -
  let ?vals = "map (\<lambda>(k, var). (k, sess (var_id var))) ps"
  let ?state = "\<lparr> init_args = Serializable_getstate self, network_params = ?vals \<rparr>"
  have vals: "get_param_values self w = Inr ?vals"
    by (rule get_param_values_set [OF ps sess])
  then have get: "Policy_getstate Serializable_getstate self w = Inr ?state"
    by (simp add: Policy_getstate_def)
  have keys_vals: "map fst ?vals = map fst ps"
    by (simp add: case_prod_beta comp_def)
  have restore: "\<exists>w2. Policy_setstate ss other ?state w0 = (Inr PyNone, self1, w2)
       \<and> w2 = w1\<lparr>default_session := Some (run_assign (run_initializer w1 sess1)
               (map (\<lambda>(var, (param_name, var_value)). (var, var_value))
                  (zip (map snd ps1) (network_params ?state))))\<rparr>
       \<and> get_param_values self1 w2 = Inr (network_params ?state)"
    if ss: "ss (init_args ?state) other w0 = (Inr r, self1, w1)"
      and sess1: "default_session w1 = Some sess1"
      and ps1: "policy_params self1 = Some ps1"
      and keys: "map fst ps1 = map fst ps"
      and dist: "distinct (map (\<lambda>p. var_id (snd p)) ps1)"
    for ss :: "'d \<Rightarrow> ('b, 'y) policy_scheme \<Rightarrow> 'v tf_world \<Rightarrow>
         pyval result \<times> ('b, 'y) policy_scheme \<times> 'v tf_world"
      and other w0 r self1 w1 sess1 ps1
  proof -
    let ?w1' = "w1\<lparr>default_session := Some (run_initializer w1 sess1)\<rparr>"
    let ?ops = "map (\<lambda>(var, (param_name, var_value)). (var, var_value)) (zip (map snd ps1) ?vals)"
    let ?w2 = "w1\<lparr>default_session := Some (run_assign (run_initializer w1 sess1) ?ops)\<rparr>"
    from keys keys_vals have k: "map fst ps1 = map fst ?vals" by simp
    have "default_session ?w1' = Some (run_initializer w1 sess1)" by simp
    from set_params_run [OF ps1 equal_keys_agree [OF k] this]
    have sp: "set_params self1 ?vals ?w1' = (Inr PyNone, ?w2)" by simp
    with ss sess1 have a: "Policy_setstate ss other ?state w0 = (Inr PyNone, self1, ?w2)"
      by (simp add: Policy_setstate_def)
    have "default_session ?w2 = Some (run_assign (run_initializer w1 sess1) ?ops)" by simp
    from get_param_values_set [OF ps1 this] read_back [OF k dist, of "run_initializer w1 sess1"]
    have b: "get_param_values self1 ?w2 = Inr ?vals" by simp
    from a b show ?thesis by simp
  qed
  show ?thesis
  proof (intro exI [of _ ?state] conjI allI impI)
    show "Policy_getstate Serializable_getstate self w = Inr ?state"
      by (rule get)
    show "init_args ?state = Serializable_getstate self"
      by simp
    show "get_param_values self w = Inr (network_params ?state)"
      using vals by simp
    show "network_params ?state = ?vals"
      by simp
  next
    fix ss :: "'d \<Rightarrow> ('b, 'y) policy_scheme \<Rightarrow> 'v tf_world \<Rightarrow>
         pyval result \<times> ('b, 'y) policy_scheme \<times> 'v tf_world"
    fix other w0 r self1 w1 sess1 ps1
    assume "ss (init_args ?state) other w0 = (Inr r, self1, w1)
          \<and> default_session w1 = Some sess1
          \<and> policy_params self1 = Some ps1
          \<and> map fst ps1 = map fst ps
          \<and> distinct (map (\<lambda>p. var_id (snd p)) ps1)"
    then have "ss (init_args ?state) other w0 = (Inr r, self1, w1)"
      and "default_session w1 = Some sess1"
      and "policy_params self1 = Some ps1"
      and "map fst ps1 = map fst ps"
      and "distinct (map (\<lambda>p. var_id (snd p)) ps1)"
      by blast+
    then show "\<exists>w2. Policy_setstate ss other ?state w0 = (Inr PyNone, self1, w2)
       \<and> w2 = w1\<lparr>default_session := Some (run_assign (run_initializer w1 sess1)
               (map (\<lambda>(var, (param_name, var_value)). (var, var_value))
                  (zip (map snd ps1) (network_params ?state))))\<rparr>
       \<and> get_param_values self1 w2 = Inr (network_params ?state)"
      by (rule restore)
  qed
qed

text \<open>
  The values 7 and 9 of a trained instance, pickled, are read again from the instance
  rebuilt in a world where both variables start at 0.
\<close>

theorem C8_pickle_roundtrip_witness:
  "policy_params built_policy = Some [(''w'', w_var), (''b'', b_var)]
   \<and> default_session trained_world = Some (\<lambda>i. if i = 0 then 7 else 9)
   \<and> Policy_getstate serializable built_policy trained_world
      = Inr \<lparr> init_args = (3, 2), network_params = [(''w'', 7), (''b'', 9)] \<rparr>
   \<and> fst (Policy_setstate rebuild (Policy_init (\<lambda>l. l) (0, 0))
        \<lparr> init_args = (3, 2), network_params = [(''w'', 7), (''b'', 9)] \<rparr> zero_world)
      = Inr PyNone
   \<and> get_param_values built_policy
        (snd (snd (Policy_setstate rebuild (Policy_init (\<lambda>l. l) (0, 0))
           \<lparr> init_args = (3, 2), network_params = [(''w'', 7), (''b'', 9)] \<rparr> zero_world)))
      = Inr [(''w'', 7), (''b'', 9)]"
proof -
  have p: "policy_params built_policy = Some [(''w'', w_var), (''b'', b_var)]"
    by (simp add: built_policy_def)
  have s: "default_session trained_world = Some (\<lambda>i. if i = 0 then 7 else 9)"
    by (simp add: trained_world_def)
  let ?state = "\<lparr> init_args = (3 :: int, 2 :: int), network_params = [(''w'', 7 :: int), (''b'', 9)] \<rparr>"
  from C8_pickle_roundtrip [OF p s, of serializable]
  obtain state where
    g: "Policy_getstate serializable built_policy trained_world = Inr state"
    and i: "init_args state = serializable built_policy"
    and n: "network_params state
        = map (\<lambda>(k, var). (k, if var_id var = 0 then 7 else 9)) [(''w'', w_var), (''b'', b_var)]"
    and restore: "\<And>(ss :: (int \<times> int) \<Rightarrow> (int \<times> int) policy \<Rightarrow> int tf_world \<Rightarrow>
           pyval result \<times> (int \<times> int) policy \<times> int tf_world)
         other w0 r self1 w1 sess1 ps1.
       ss (init_args state) other w0 = (Inr r, self1, w1) \<Longrightarrow>
       default_session w1 = Some sess1 \<Longrightarrow>
       policy_params self1 = Some ps1 \<Longrightarrow>
       map fst ps1 = map fst [(''w'', w_var), (''b'', b_var)] \<Longrightarrow>
       distinct (map (\<lambda>p. var_id (snd p)) ps1) \<Longrightarrow>
       \<exists>w2. Policy_setstate ss other state w0 = (Inr PyNone, self1, w2)
           \<and> get_param_values self1 w2 = Inr (network_params state)"
    by blast
  from i n have st: "state = ?state"
    by (cases state) (simp add: built_policy_def Policy_init_def w_var_def b_var_def)
  have "rebuild (init_args state) (Policy_init (\<lambda>l. l) (0, 0)) zero_world
      = (Inr PyNone, built_policy, zero_world)"
    by (simp add: st rebuild_def built_policy_def)
  moreover have "default_session zero_world = Some (\<lambda>i. 0)"
    by (simp add: zero_world_def)
  moreover have "distinct (map (\<lambda>p. var_id (snd p)) [(''w'', w_var), (''b'', b_var)])"
    by (simp add: w_var_def b_var_def)
  ultimately obtain w2 where
    "Policy_setstate rebuild (Policy_init (\<lambda>l. l) (0, 0)) state zero_world
       = (Inr PyNone, built_policy, w2)"
    and "get_param_values built_policy w2 = Inr (network_params state)"
    using p restore [of rebuild "Policy_init (\<lambda>l. l) (0, 0)" zero_world PyNone built_policy
        zero_world "\<lambda>i. 0" "[(''w'', w_var), (''b'', b_var)]"]
    by auto
  with p s g st show ?thesis by simp
qed

text \<open>
  On an instance of \<open>Policy\<close> itself \<open>policy_params\<close> was never set, and
  \<open>__getstate__\<close> raises \<open>AttributeError\<close> instead of returning a dict.
\<close>

theorem C8_base_instance_counterexample:
  "Policy_getstate serializable (Policy_init (\<lambda>l. l) (3 :: int, 2 :: int)) trained_world
   = Inl AttributeError"
  by (simp add: Policy_getstate_def get_param_values_def Policy_init_def trained_world_def)

subsection \<open>C9: the two assertions\<close>

text \<open>
  C9. Two methods check their input with an assertion:
  \<open>_create_placeholders_for_vars\<close> raises \<open>AssertionError\<close> exactly when \<open>scopes\<close> is
  neither a list nor a tuple, and \<open>set_params\<close>, on an instance whose \<open>policy_params\<close>
  is set, raises \<open>AssertionError\<close> and leaves the session as it was exactly when the
  keys differ at a zipped position. The other methods that take an argument do not
  look at it: \<open>reset\<close>, \<open>log_diagnostics\<close> and \<open>update_task_parameters\<close> return \<open>None\<close>
  for every argument, and the stubs raise \<open>NotImplementedError\<close> for every argument.
\<close>

theorem C9_input_validation:
  "((create_placeholders_for_vars get_collection remove_scope_from_name mself scopes m graph_keys
       = Inl AssertionError) = (\<not> is_list_or_tuple scopes))
   \<and> (policy_params self = Some ps \<longrightarrow>
        (set_params self pp w = (Inl AssertionError, w))
          = (\<exists>i < min (length ps) (length pp). fst (ps ! i) \<noteq> fst (pp ! i)))
   \<and> reset self dones = (Inr PyNone, self)
   \<and> log_diagnostics self paths = (Inr PyNone, self)
   \<and> fst (update_task_parameters mself p) = Inr PyNone
   \<and> get_action self observation = (Inl NotImplementedError, self)
   \<and> Policy_get_actions self observations = (Inl NotImplementedError, self)
   \<and> distribution_info_sym self obs_var params = (Inl NotImplementedError, self)
   \<and> distribution_info_keys self obs state_infos = (Inl NotImplementedError, self)
   \<and> MetaPolicy_get_actions mself observations = (Inl NotImplementedError, mself)"
proof -
  have a: "(create_placeholders_for_vars get_collection remove_scope_from_name mself scopes m
       graph_keys = Inl AssertionError) = (\<not> is_list_or_tuple scopes)"
    by (simp add: create_placeholders_for_vars_def)
  have b: "(set_params self pp w = (Inl AssertionError, w))
          = (\<exists>i < min (length ps) (length pp). fst (ps ! i) \<noteq> fst (pp ! i))"
    if ps: "policy_params self = Some ps"
  proof -
    have "(set_params self pp w = (Inl AssertionError, w))
        = (fst (set_params self pp w) = Inl AssertionError)"
      using ps by (auto simp: set_params_def get_params_def Let_def split: option.splits)
    then show ?thesis
      by (simp only: set_params_assertion_iff [OF ps])
  qed
  have c: "reset self dones = (Inr PyNone, self)
   \<and> log_diagnostics self paths = (Inr PyNone, self)
   \<and> fst (update_task_parameters mself p) = Inr PyNone
   \<and> get_action self observation = (Inl NotImplementedError, self)
   \<and> Policy_get_actions self observations = (Inl NotImplementedError, self)
   \<and> distribution_info_sym self obs_var params = (Inl NotImplementedError, self)
   \<and> distribution_info_keys self obs state_infos = (Inl NotImplementedError, self)
   \<and> MetaPolicy_get_actions mself observations = (Inl NotImplementedError, mself)"
    by (simp add: reset_def log_diagnostics_def update_task_parameters_def get_action_def
        Policy_get_actions_def distribution_info_sym_def distribution_info_keys_def
        MetaPolicy_get_actions_def get_actions_via_def get_pre_update_actions_def
        get_post_update_actions_def)
  from a b c show ?thesis by blast
qed

text \<open>
  On the instance with the keys \<open>w\<close>, \<open>b\<close> the dict \<open>{'weights': 5}\<close> is refused and
  the dict \<open>{'w': 5}\<close> is not.
\<close>

theorem C9_input_validation_witness:
  "policy_params built_policy = Some [(''w'', w_var), (''b'', b_var)]
   \<and> set_params built_policy [(''weights'', 5 :: int)] zero_world = (Inl AssertionError, zero_world)
   \<and> set_params built_policy [(''w'', 5 :: int)] zero_world \<noteq> (Inl AssertionError, zero_world)"
proof -
  have p: "policy_params built_policy = Some [(''w'', w_var), (''b'', b_var)]"
    by (simp add: built_policy_def)
  from p C9_input_validation [of policy_collection drop_scope
      "MetaPolicy_init (\<lambda>l. l) (3 :: int, 2 :: int)" "PyStr ''policy''" 1 "()"
      built_policy "[(''w'', w_var), (''b'', b_var)]" "[(''weights'', 5 :: int)]" zero_world
      PyNone PyNone PyNone PyNone PyNone PyNone PyNone PyNone PyNone]
  have a: "set_params built_policy [(''weights'', 5 :: int)] zero_world
      = (Inl AssertionError, zero_world)"
    by auto
  from p C9_input_validation [of policy_collection drop_scope
      "MetaPolicy_init (\<lambda>l. l) (3 :: int, 2 :: int)" "PyStr ''policy''" 1 "()"
      built_policy "[(''w'', w_var), (''b'', b_var)]" "[(''w'', 5 :: int)]" zero_world
      PyNone PyNone PyNone PyNone PyNone PyNone PyNone PyNone PyNone]
  have b: "set_params built_policy [(''w'', 5 :: int)] zero_world
      \<noteq> (Inl AssertionError, zero_world)"
    by auto
  from p a b show ?thesis by blast
qed

text \<open>
  Both assertions fire on bad input: the string \<open>'policy'\<close> as \<open>scopes\<close>, and a
  parameter dict with the key \<open>weights\<close>.
\<close>

theorem C9_assertions_counterexample:
  "create_placeholders_for_vars policy_collection drop_scope
     (MetaPolicy_init (\<lambda>l. l) (3 :: int, 2 :: int)) (PyStr ''policy'') 1 ()
     = Inl AssertionError
   \<and> set_params built_policy [(''weights'', 5 :: int)] zero_world = (Inl AssertionError, zero_world)"
  by (simp add: create_placeholders_for_vars_def set_params_def get_params_def built_policy_def)

end
